theory Spec2Isabelle
  imports Main
begin

section \<open>The input bridge of www/index.js\<close>

text \<open>
  The module keeps four direction flags, updates them from keyboard events, creates one
  game object through the wasm package and drives a render loop with
  \<^verbatim>\<open>requestAnimationFrame\<close>. The embedding below follows the file top to bottom.
\<close>

subsection \<open>Data\<close>

text \<open>
  \<^verbatim>\<open>const curInput = { up: false, down: false, left: false, right: false }\<close>
\<close>

record InputState =
  up :: bool
  down :: bool
  left :: bool
  right :: bool

text \<open>
  What \<^verbatim>\<open>game.draw\<close> hands back is an arbitrary JavaScript value. The loop only
  compares it with \<^verbatim>\<open>null\<close> using \<^verbatim>\<open>==\<close>, so four kinds of value are
  told apart: \<^verbatim>\<open>undefined\<close>, \<^verbatim>\<open>null\<close>, an object that carries the
  \<^verbatim>\<open>[[IsHTMLDDA]]\<close> internal slot (in a browser, \<^verbatim>\<open>document.all\<close>), and
  everything else (booleans, numbers, strings, symbols, ordinary objects), whose
  content \<open>'r\<close> this layer never inspects.
\<close>

datatype 'r js_value = JSUndefined | JSNull | JSHTMLDDA | JSValue 'r

text \<open>
  \<^verbatim>\<open>v == null\<close>: the loose comparison holds for \<^verbatim>\<open>null\<close>, for
  \<^verbatim>\<open>undefined\<close> and, by the language's rule for objects that emulate
  \<^verbatim>\<open>undefined\<close>, for an \<^verbatim>\<open>[[IsHTMLDDA]]\<close> object; it holds for no other
  value.
\<close>

fun loose_eq_null :: "'r js_value \<Rightarrow> bool" where
  "loose_eq_null JSUndefined = True"
| "loose_eq_null JSNull = True"
| "loose_eq_null JSHTMLDDA = True"
| "loose_eq_null (JSValue v) = False"

text \<open>
  The only function ever passed to \<^verbatim>\<open>requestAnimationFrame\<close> is
  \<^verbatim>\<open>drawOneFrame\<close>; the host's list of pending callbacks is a list of such names.
\<close>

datatype callback = DrawOneFrame

text \<open>
  Calls that leave this module for the wasm package, in the order they are made. A
  \<open>Draw\<close> entry records the handle the method was called on and the four arguments in
  the order they were passed.
\<close>

datatype 'h wasm_call = MakeGame | Draw 'h bool bool bool bool

text \<open>
  The module-level state: the \<^verbatim>\<open>curInput\<close> object, the \<^verbatim>\<open>const game\<close>
  binding (a handle of type \<open>'h\<close>), the state \<open>'w\<close> of the wasm instance behind that
  handle, the text of the \<^verbatim>\<open>output\<close> element, the host's pending animation-frame
  callbacks, and the log of calls into the wasm package.
\<close>

record ('h, 'w) page =
  curInput :: InputState
  game :: 'h
  world :: 'w
  innerText :: string
  pending :: "callback list"
  calls :: "'h wasm_call list"

text \<open>
  The two operations imported from the wasm package are not part of this file; they
  are parameters of the model. \<^verbatim>\<open>make_game()\<close> returns a handle and may change the
  instance; \<^verbatim>\<open>draw(up, down, left, right)\<close> on a handle returns a value and may
  change the instance. Both are taken to return to their caller, as their interface
  says; what they return is not constrained.
\<close>

type_synonym ('h, 'w) make_game_op = "'w \<Rightarrow> 'h \<times> 'w"

type_synonym ('h, 'w, 'r) draw_op =
  "'h \<Rightarrow> bool \<Rightarrow> bool \<Rightarrow> bool \<Rightarrow> bool \<Rightarrow> 'w \<Rightarrow> 'r js_value \<times> 'w"

subsection \<open>Key event handlers\<close>

text \<open>
  The listener registered for \<^verbatim>\<open>'keydown'\<close>: a \<^verbatim>\<open>switch\<close> on
  \<^verbatim>\<open>ev.key\<close> with four cases and no default. It contains no \<^verbatim>\<open>throw\<close> and
  calls nothing, so it is a total function on the flags. The key name is compared as a
  whole string with each case label, in the order of the cases.
\<close>

definition keydown_handler :: "string \<Rightarrow> InputState \<Rightarrow> InputState" where
  "keydown_handler key ci =
     (if key = ''ArrowUp'' then ci\<lparr>up := True\<rparr>
      else if key = ''ArrowDown'' then ci\<lparr>down := True\<rparr>
      else if key = ''ArrowLeft'' then ci\<lparr>left := True\<rparr>
      else if key = ''ArrowRight'' then ci\<lparr>right := True\<rparr>
      else ci)"

text \<open>The listener registered for \<^verbatim>\<open>'keyup'\<close>, of the same shape.\<close>

definition keyup_handler :: "string \<Rightarrow> InputState \<Rightarrow> InputState" where
  "keyup_handler key ci =
     (if key = ''ArrowUp'' then ci\<lparr>up := False\<rparr>
      else if key = ''ArrowDown'' then ci\<lparr>down := False\<rparr>
      else if key = ''ArrowLeft'' then ci\<lparr>left := False\<rparr>
      else if key = ''ArrowRight'' then ci\<lparr>right := False\<rparr>
      else ci)"

subsection \<open>Render loop\<close>

text \<open>
  \<^verbatim>\<open>requestAnimationFrame(cb)\<close> adds one entry to the host's pending callbacks.
\<close>

definition requestAnimationFrame :: "callback \<Rightarrow> ('h, 'w) page \<Rightarrow> ('h, 'w) page" where
  "requestAnimationFrame cb st = st\<lparr>pending := pending st @ [cb]\<rparr>"

text \<open>
  \<^verbatim>\<open>
  function drawOneFrame() {
    const result = game.draw(
        curInput.up, curInput.down, curInput.left, curInput.right);
    if (result == null) {
      output.innerText = 'Failed to draw!';
    } else {
      output.innerText = 'All is well.';
    }
    requestAnimationFrame(drawOneFrame);
  }
  \<close>
\<close>

definition drawOneFrame :: "('h, 'w, 'r) draw_op \<Rightarrow> ('h, 'w) page \<Rightarrow> ('h, 'w) page" where
  "drawOneFrame draw st =
     (let ci = curInput st;
          (result, w) = draw (game st) (up ci) (down ci) (left ci) (right ci) (world st);
          st1 = st\<lparr>world := w,
                   calls := calls st @ [Draw (game st) (up ci) (down ci) (left ci) (right ci)]\<rparr>;
          st2 = (if loose_eq_null result
                 then st1\<lparr>innerText := ''Failed to draw!''\<rparr>
                 else st1\<lparr>innerText := ''All is well.''\<rparr>)
      in requestAnimationFrame DrawOneFrame st2)"

subsection \<open>Start-up and the host's event loop\<close>

text \<open>
  The top level of the module runs once, to completion: it creates \<^verbatim>\<open>curInput\<close>
  with all flags false, registers the two listeners, appends a fresh \<^verbatim>\<open>div\<close> (whose
  text is empty) and a canvas to the body, calls \<^verbatim>\<open>wasm.make_game()\<close> and binds
  the result to the constant \<^verbatim>\<open>game\<close>, and requests the first animation frame.
\<close>

definition startup :: "('h, 'w) make_game_op \<Rightarrow> 'w \<Rightarrow> ('h, 'w) page" where
  "startup make_game w0 =
     (let (g, w) = make_game w0
      in requestAnimationFrame DrawOneFrame
           \<lparr>curInput = \<lparr>up = False, down = False, left = False, right = False\<rparr>,
            game = g, world = w, innerText = [], pending = [], calls = [MakeGame]\<rparr>)"

text \<open>
  After start-up the host delivers events one at a time on the single UI thread: a key
  goes down, a key goes up, or the display refreshes.
\<close>

datatype event = KeyDown string | KeyUp string | AnimationFrame

fun run_callback :: "('h, 'w, 'r) draw_op \<Rightarrow> callback \<Rightarrow> ('h, 'w) page \<Rightarrow> ('h, 'w) page" where
  "run_callback draw DrawOneFrame st = drawOneFrame draw st"

text \<open>
  The animation-frame primitive belongs to the host, not to this file. On a display
  refresh the host takes the callbacks pending at that moment, clears the list and
  invokes them in order, each running to completion; a callback requested meanwhile
  waits for the next refresh.
\<close>

definition animation_frame :: "('h, 'w, 'r) draw_op \<Rightarrow> ('h, 'w) page \<Rightarrow> ('h, 'w) page" where
  "animation_frame draw st = fold (run_callback draw) (pending st) (st\<lparr>pending := []\<rparr>)"

fun step :: "('h, 'w, 'r) draw_op \<Rightarrow> event \<Rightarrow> ('h, 'w) page \<Rightarrow> ('h, 'w) page" where
  "step draw (KeyDown key) st = st\<lparr>curInput := keydown_handler key (curInput st)\<rparr>"
| "step draw (KeyUp key) st = st\<lparr>curInput := keyup_handler key (curInput st)\<rparr>"
| "step draw AnimationFrame st = animation_frame draw st"

definition run :: "('h, 'w, 'r) draw_op \<Rightarrow> event list \<Rightarrow> ('h, 'w) page \<Rightarrow> ('h, 'w) page" where
  "run draw evs st = fold (step draw) evs st"

text \<open>The flags that the key events of a history produce, frames left aside.\<close>

fun key_effect :: "event \<Rightarrow> InputState \<Rightarrow> InputState" where
  "key_effect (KeyDown key) ci = keydown_handler key ci"
| "key_effect (KeyUp key) ci = keyup_handler key ci"
| "key_effect AnimationFrame ci = ci"

text \<open>The value that \<^verbatim>\<open>game.draw\<close> returns to a frame callback invoked in state \<open>st\<close>.\<close>

definition draw_result :: "('h, 'w, 'r) draw_op \<Rightarrow> ('h, 'w) page \<Rightarrow> 'r js_value" where
  "draw_result draw st =
     fst (draw (game st) (up (curInput st)) (down (curInput st)) (left (curInput st))
            (right (curInput st)) (world st))"

text \<open>Tests on entries of the call log: a draw call, and a draw call on handle \<open>g\<close>.\<close>

fun is_draw :: "'h wasm_call \<Rightarrow> bool" where
  "is_draw MakeGame = False"
| "is_draw (Draw h u d l r) = True"

fun draw_on :: "'h \<Rightarrow> 'h wasm_call \<Rightarrow> bool" where
  "draw_on g MakeGame = False"
| "draw_on g (Draw h u d l r) = (h = g)"

subsection \<open>Sample wasm operations\<close>

text \<open>
  Concrete stand-ins for the imported operations, used to evaluate the model: the wasm
  instance is a frame counter, the only handle is \<open>7\<close>, and \<open>draw\<close> answers with a
  fixed kind of value.
\<close>

definition make_game_sample :: "(nat, nat) make_game_op" where
  "make_game_sample w = (7, w)"

definition draw_ok :: "(nat, nat, unit) draw_op" where
  "draw_ok h u d l r w = (JSValue (), Suc w)"

definition draw_null :: "(nat, nat, unit) draw_op" where
  "draw_null h u d l r w = (JSNull, Suc w)"

definition draw_undefined :: "(nat, nat, unit) draw_op" where
  "draw_undefined h u d l r w = (JSUndefined, Suc w)"

section \<open>Properties\<close>

subsection \<open>Effects of one frame, one event and a history\<close>

lemma drawOneFrame_pending: "pending (drawOneFrame draw st) = pending st @ [DrawOneFrame]"
  by (simp add: drawOneFrame_def requestAnimationFrame_def Let_def split: prod.split)

lemma drawOneFrame_game: "game (drawOneFrame draw st) = game st"
  by (simp add: drawOneFrame_def requestAnimationFrame_def Let_def split: prod.split)

lemma drawOneFrame_curInput: "curInput (drawOneFrame draw st) = curInput st"
  by (simp add: drawOneFrame_def requestAnimationFrame_def Let_def split: prod.split)

lemma drawOneFrame_calls:
  "calls (drawOneFrame draw st) =
     calls st @ [Draw (game st) (up (curInput st)) (down (curInput st))
                   (left (curInput st)) (right (curInput st))]"
  by (simp add: drawOneFrame_def requestAnimationFrame_def Let_def split: prod.split)

lemma drawOneFrame_world:
  "world (drawOneFrame draw st) =
     snd (draw (game st) (up (curInput st)) (down (curInput st))
            (left (curInput st)) (right (curInput st)) (world st))"
  by (simp add: drawOneFrame_def requestAnimationFrame_def Let_def split: prod.split)

lemma drawOneFrame_innerText:
  "innerText (drawOneFrame draw st) =
     (if loose_eq_null (draw_result draw st) then ''Failed to draw!'' else ''All is well.'')"
  by (simp add: drawOneFrame_def draw_result_def requestAnimationFrame_def Let_def
      split: prod.split)

lemma animation_frame_single:
  "pending st = [DrawOneFrame] \<Longrightarrow> animation_frame draw st = drawOneFrame draw (st\<lparr>pending := []\<rparr>)"
  by (simp add: animation_frame_def)

lemma step_pending:
  "pending st = [DrawOneFrame] \<Longrightarrow> pending (step draw ev st) = [DrawOneFrame]"
  by (cases ev) (simp_all add: animation_frame_single drawOneFrame_pending)

lemma step_game:
  "pending st = [DrawOneFrame] \<Longrightarrow> game (step draw ev st) = game st"
  by (cases ev) (simp_all add: animation_frame_single drawOneFrame_game)

lemma step_curInput:
  "pending st = [DrawOneFrame] \<Longrightarrow> curInput (step draw ev st) = key_effect ev (curInput st)"
  by (cases ev) (simp_all add: animation_frame_single drawOneFrame_curInput)

lemma step_calls:
  "pending st = [DrawOneFrame] \<Longrightarrow>
   \<exists>ds. calls (step draw ev st) = calls st @ ds \<and> list_all (draw_on (game st)) ds
        \<and> length ds = count_list [ev] AnimationFrame"
  by (cases ev) (simp_all add: animation_frame_single drawOneFrame_calls)

lemma run_Cons: "run draw (ev # evs) st = run draw evs (step draw ev st)"
  by (simp add: run_def)

lemma run_pending:
  "pending st = [DrawOneFrame] \<Longrightarrow> pending (run draw evs st) = [DrawOneFrame]"
proof (induction evs arbitrary: st)
  case Nil
  then show ?case by (simp add: run_def)
next
  case (Cons ev evs)
  then show ?case by (simp add: run_Cons step_pending)
qed

lemma run_game:
  "pending st = [DrawOneFrame] \<Longrightarrow> game (run draw evs st) = game st"
proof (induction evs arbitrary: st)
  case Nil
  then show ?case by (simp add: run_def)
next
  case (Cons ev evs)
  then show ?case by (simp add: run_Cons step_pending step_game)
qed

lemma run_curInput:
  "pending st = [DrawOneFrame] \<Longrightarrow> curInput (run draw evs st) = fold key_effect evs (curInput st)"
proof (induction evs arbitrary: st)
  case Nil
  then show ?case by (simp add: run_def)
next
  case (Cons ev evs)
  then show ?case by (simp add: run_Cons step_pending step_curInput)
qed

lemma run_calls:
  "pending st = [DrawOneFrame] \<Longrightarrow>
   \<exists>ds. calls (run draw evs st) = calls st @ ds \<and> list_all (draw_on (game st)) ds
        \<and> length ds = count_list evs AnimationFrame"
proof (induction evs arbitrary: st)
  case Nil
  then show ?case by (simp add: run_def)
next
  case (Cons ev evs)
  let ?st = "step draw ev st"
  from Cons.prems have p: "pending ?st = [DrawOneFrame]" and g: "game ?st = game st"
    by (simp_all add: step_pending step_game)
  from step_calls [OF Cons.prems, of draw ev] obtain ds1 where
    d1: "calls ?st = calls st @ ds1" "list_all (draw_on (game st)) ds1"
        "length ds1 = count_list [ev] AnimationFrame"
    by blast
  from Cons.IH [OF p] obtain ds2 where
    d2: "calls (run draw evs ?st) = calls ?st @ ds2" "list_all (draw_on (game ?st)) ds2"
        "length ds2 = count_list evs AnimationFrame"
    by blast
  have "calls (run draw (ev # evs) st) = calls st @ (ds1 @ ds2)"
    using d1(1) d2(1) by (simp add: run_Cons)
  moreover have "list_all (draw_on (game st)) (ds1 @ ds2)"
    using d1(2) d2(2) g by simp
  moreover have "length (ds1 @ ds2) = count_list (ev # evs) AnimationFrame"
    using d1(3) d2(3) by simp
  ultimately show ?case by blast
qed

lemma draws_only:
  "list_all (draw_on g) ds \<Longrightarrow> filter is_draw ds = ds \<and> count_list ds MakeGame = 0"
proof (induction ds)
  case Nil
  then show ?case by simp
next
  case (Cons c ds)
  then show ?case by (cases c) simp_all
qed

lemma startup_pending: "pending (startup make_game w0) = [DrawOneFrame]"
  by (simp add: startup_def requestAnimationFrame_def split: prod.split)

lemma startup_calls: "calls (startup make_game w0) = [MakeGame]"
  by (simp add: startup_def requestAnimationFrame_def split: prod.split)

lemma startup_game: "game (startup make_game w0) = fst (make_game w0)"
  by (simp add: startup_def requestAnimationFrame_def split: prod.split)

lemma startup_world: "world (startup make_game w0) = snd (make_game w0)"
  by (simp add: startup_def requestAnimationFrame_def split: prod.split)

lemma startup_curInput:
  "curInput (startup make_game w0) = \<lparr>up = False, down = False, left = False, right = False\<rparr>"
  by (simp add: startup_def requestAnimationFrame_def split: prod.split)

lemma frames_keep_flags: "fold key_effect (replicate n AnimationFrame) ci = ci"
  by (induction n) simp_all

subsection \<open>Key handlers\<close>

text \<open>
  C2. For each of the four arrow keys and every starting InputState, the key-down
  handler sets the field of that key (up, down, left, right respectively) to true and
  leaves the other three fields unchanged.
\<close>

theorem keydown_sets_matching_field:
  "keydown_handler ''ArrowUp'' ci = ci\<lparr>up := True\<rparr>
   \<and> keydown_handler ''ArrowDown'' ci = ci\<lparr>down := True\<rparr>
   \<and> keydown_handler ''ArrowLeft'' ci = ci\<lparr>left := True\<rparr>
   \<and> keydown_handler ''ArrowRight'' ci = ci\<lparr>right := True\<rparr>
   \<and> up (keydown_handler ''ArrowUp'' ci)
   \<and> down (keydown_handler ''ArrowUp'' ci) = down ci
   \<and> left (keydown_handler ''ArrowUp'' ci) = left ci
   \<and> right (keydown_handler ''ArrowUp'' ci) = right ci
   \<and> down (keydown_handler ''ArrowDown'' ci)
   \<and> up (keydown_handler ''ArrowDown'' ci) = up ci
   \<and> left (keydown_handler ''ArrowDown'' ci) = left ci
   \<and> right (keydown_handler ''ArrowDown'' ci) = right ci
   \<and> left (keydown_handler ''ArrowLeft'' ci)
   \<and> up (keydown_handler ''ArrowLeft'' ci) = up ci
   \<and> down (keydown_handler ''ArrowLeft'' ci) = down ci
   \<and> right (keydown_handler ''ArrowLeft'' ci) = right ci
   \<and> right (keydown_handler ''ArrowRight'' ci)
   \<and> up (keydown_handler ''ArrowRight'' ci) = up ci
   \<and> down (keydown_handler ''ArrowRight'' ci) = down ci
   \<and> left (keydown_handler ''ArrowRight'' ci) = left ci"
  by (simp add: keydown_handler_def)

text \<open>
  C3. For each of the four arrow keys and every starting InputState, the key-up handler
  sets the field of that key to false, whatever it was before (so also right after a
  key-down of the same key), and leaves the other three fields unchanged.
\<close>

theorem keyup_clears_matching_field:
  "keyup_handler ''ArrowUp'' ci = ci\<lparr>up := False\<rparr>
   \<and> keyup_handler ''ArrowDown'' ci = ci\<lparr>down := False\<rparr>
   \<and> keyup_handler ''ArrowLeft'' ci = ci\<lparr>left := False\<rparr>
   \<and> keyup_handler ''ArrowRight'' ci = ci\<lparr>right := False\<rparr>
   \<and> \<not> up (keyup_handler ''ArrowUp'' ci)
   \<and> down (keyup_handler ''ArrowUp'' ci) = down ci
   \<and> left (keyup_handler ''ArrowUp'' ci) = left ci
   \<and> right (keyup_handler ''ArrowUp'' ci) = right ci
   \<and> \<not> down (keyup_handler ''ArrowDown'' ci)
   \<and> up (keyup_handler ''ArrowDown'' ci) = up ci
   \<and> left (keyup_handler ''ArrowDown'' ci) = left ci
   \<and> right (keyup_handler ''ArrowDown'' ci) = right ci
   \<and> \<not> left (keyup_handler ''ArrowLeft'' ci)
   \<and> up (keyup_handler ''ArrowLeft'' ci) = up ci
   \<and> down (keyup_handler ''ArrowLeft'' ci) = down ci
   \<and> right (keyup_handler ''ArrowLeft'' ci) = right ci
   \<and> \<not> right (keyup_handler ''ArrowRight'' ci)
   \<and> up (keyup_handler ''ArrowRight'' ci) = up ci
   \<and> down (keyup_handler ''ArrowRight'' ci) = down ci
   \<and> left (keyup_handler ''ArrowRight'' ci) = left ci
   \<and> \<not> up (keyup_handler ''ArrowUp'' (keydown_handler ''ArrowUp'' ci))
   \<and> \<not> down (keyup_handler ''ArrowDown'' (keydown_handler ''ArrowDown'' ci))
   \<and> \<not> left (keyup_handler ''ArrowLeft'' (keydown_handler ''ArrowLeft'' ci))
   \<and> \<not> right (keyup_handler ''ArrowRight'' (keydown_handler ''ArrowRight'' ci))"
  by (simp add: keyup_handler_def keydown_handler_def)

text \<open>
  C4. For every key value other than the four arrow keys and every starting InputState,
  the key-down and the key-up handler return the InputState they were given, all four
  fields unchanged; delivered as events they leave the whole page state as it was. The
  handlers have no failing path: each is a total function whose result is an
  InputState.
\<close>

theorem unrecognized_key_ignored:
  "key \<notin> {''ArrowUp'', ''ArrowDown'', ''ArrowLeft'', ''ArrowRight''} \<Longrightarrow>
   keydown_handler key ci = ci \<and> keyup_handler key ci = ci
   \<and> step draw (KeyDown key) st = st \<and> step draw (KeyUp key) st = st"
  by (simp add: keydown_handler_def keyup_handler_def)

theorem unrecognized_key_ignored_witness:
  "''Enter'' \<notin> {''ArrowUp'', ''ArrowDown'', ''ArrowLeft'', ''ArrowRight''}
   \<and> keydown_handler ''Enter'' \<lparr>up = True, down = False, left = True, right = False\<rparr>
       = \<lparr>up = True, down = False, left = True, right = False\<rparr>
   \<and> keyup_handler ''Enter'' \<lparr>up = True, down = False, left = True, right = False\<rparr>
       = \<lparr>up = True, down = False, left = True, right = False\<rparr>
   \<and> step draw_ok (KeyDown ''Enter'') (startup make_game_sample 0) = startup make_game_sample 0
   \<and> step draw_ok (KeyUp ''Enter'') (startup make_game_sample 0) = startup make_game_sample 0"
proof -
  have h: "''Enter'' \<notin> {''ArrowUp'', ''ArrowDown'', ''ArrowLeft'', ''ArrowRight''}"
    by simp
  show ?thesis
    using h unrecognized_key_ignored [OF h,
        of "\<lparr>up = True, down = False, left = True, right = False\<rparr>" draw_ok
           "startup make_game_sample 0"]
    by simp
qed

text \<open>
  C10. The key handlers are idempotent: for every key value and every InputState,
  handling the same key-down twice gives the same InputState as handling it once, and
  likewise for key-up.
\<close>

theorem key_handlers_idempotent:
  "keydown_handler key (keydown_handler key ci) = keydown_handler key ci
   \<and> keyup_handler key (keyup_handler key ci) = keyup_handler key ci"
  by (simp add: keydown_handler_def keyup_handler_def)

subsection \<open>Render loop\<close>

text \<open>
  C1, as the code has it. In every invocation of the frame callback, if the value
  returned by draw is not loosely equal to null, that is, it is neither null, nor
  undefined, nor an object that emulates undefined, then the status text is set to
  exactly "All is well.", and if the value is null then the status text is set to
  exactly "Failed to draw!".
\<close>

theorem status_text_follows_draw_result:
  "(draw_result draw st \<noteq> JSNull \<and> draw_result draw st \<noteq> JSUndefined
      \<and> draw_result draw st \<noteq> JSHTMLDDA
      \<longrightarrow> innerText (drawOneFrame draw st) = ''All is well.'')
   \<and> (\<not> loose_eq_null (draw_result draw st)
      \<longrightarrow> innerText (drawOneFrame draw st) = ''All is well.'')
   \<and> (draw_result draw st = JSNull
      \<longrightarrow> innerText (drawOneFrame draw st) = ''Failed to draw!'')"
  by (cases "draw_result draw st") (simp_all add: drawOneFrame_innerText)

theorem status_text_follows_draw_result_witness:
  "draw_result draw_ok (startup make_game_sample 0) \<noteq> JSNull
   \<and> draw_result draw_ok (startup make_game_sample 0) \<noteq> JSUndefined
   \<and> draw_result draw_ok (startup make_game_sample 0) \<noteq> JSHTMLDDA
   \<and> \<not> loose_eq_null (draw_result draw_ok (startup make_game_sample 0))
   \<and> innerText (drawOneFrame draw_ok (startup make_game_sample 0)) = ''All is well.''
   \<and> draw_result draw_null (startup make_game_sample 0) = JSNull
   \<and> innerText (drawOneFrame draw_null (startup make_game_sample 0)) = ''Failed to draw!''"
proof -
  have ok: "draw_result draw_ok (startup make_game_sample 0) = JSValue ()"
    by (simp add: draw_result_def draw_ok_def)
  have null: "draw_result draw_null (startup make_game_sample 0) = JSNull"
    by (simp add: draw_result_def draw_null_def)
  show ?thesis
    using ok null
      status_text_follows_draw_result [of draw_ok "startup make_game_sample 0"]
      status_text_follows_draw_result [of draw_null "startup make_game_sample 0"]
    by simp
qed

text \<open>
  C1, as the specification words it (a non-null result gives "All is well."), fails
  when draw returns undefined: that value is not null, and the frame callback reports
  "Failed to draw!".
\<close>

theorem undefined_result_is_not_reported_well:
  "draw_result draw_undefined (startup make_game_sample 0) \<noteq> JSNull
   \<and> innerText (drawOneFrame draw_undefined (startup make_game_sample 0)) = ''Failed to draw!''
   \<and> innerText (drawOneFrame draw_undefined (startup make_game_sample 0)) \<noteq> ''All is well.''"
  by (simp add: drawOneFrame_innerText draw_result_def draw_undefined_def)

text \<open>
  C9. If draw returns undefined, the frame callback takes the failure branch and sets
  the status text to "Failed to draw!"; the same holds for every result that is loosely
  equal to null, not for the null value alone.
\<close>

theorem nullish_result_reports_failure:
  "(draw_result draw st = JSUndefined
      \<longrightarrow> innerText (drawOneFrame draw st) = ''Failed to draw!'')
   \<and> (loose_eq_null (draw_result draw st)
      \<longrightarrow> innerText (drawOneFrame draw st) = ''Failed to draw!'')"
  by (simp add: drawOneFrame_innerText)

theorem nullish_result_reports_failure_witness:
  "draw_result draw_undefined (run draw_ok [AnimationFrame] (startup make_game_sample 0))
     = JSUndefined
   \<and> loose_eq_null
       (draw_result draw_undefined (run draw_ok [AnimationFrame] (startup make_game_sample 0)))
   \<and> innerText
       (drawOneFrame draw_undefined (run draw_ok [AnimationFrame] (startup make_game_sample 0)))
     = ''Failed to draw!''"
proof -
  have u: "draw_result draw_undefined
             (run draw_ok [AnimationFrame] (startup make_game_sample 0)) = JSUndefined"
    by (simp add: draw_result_def draw_undefined_def)
  show ?thesis
    using u nullish_result_reports_failure
      [of draw_undefined "run draw_ok [AnimationFrame] (startup make_game_sample 0)"]
    by simp
qed

text \<open>
  C6. Every invocation of the frame callback calls draw exactly once, on the game
  handle, passing the current InputState fields in the order up, down, left, right: the
  call log grows by that one entry, and the wasm instance is left as that one call
  leaves it.
\<close>

theorem frame_calls_draw_once_with_flags:
  "calls (drawOneFrame draw st) =
     calls st @ [Draw (game st) (up (curInput st)) (down (curInput st))
                   (left (curInput st)) (right (curInput st))]
   \<and> world (drawOneFrame draw st) =
     snd (draw (game st) (up (curInput st)) (down (curInput st))
            (left (curInput st)) (right (curInput st)) (world st))"
  by (simp add: drawOneFrame_calls drawOneFrame_world)

text \<open>
  C5. Every invocation of the frame callback adds exactly one request for a further
  invocation, whatever draw returned. Hence after start-up and any history of events
  exactly one invocation is pending, and the number of invocations so far equals the
  number of display refreshes: the sequence of invocations goes on for as long as the
  host keeps refreshing.
\<close>

theorem frame_reschedules_itself_once:
  "pending (drawOneFrame draw st) = pending st @ [DrawOneFrame]
   \<and> pending (run draw evs (startup make_game w0)) = [DrawOneFrame]
   \<and> length (filter is_draw (calls (run draw evs (startup make_game w0))))
       = count_list evs AnimationFrame
   \<and> length (filter is_draw (calls (run draw (replicate n AnimationFrame) (startup make_game w0))))
       = n"
proof -
  let ?s0 = "startup make_game w0"
  have p: "pending ?s0 = [DrawOneFrame]" by (rule startup_pending)
  have count: "length (filter is_draw (calls (run draw es ?s0))) = count_list es AnimationFrame"
    for es
  proof -
    from run_calls [OF p, of draw es] obtain ds where
      ds: "calls (run draw es ?s0) = calls ?s0 @ ds" "list_all (draw_on (game ?s0)) ds"
          "length ds = count_list es AnimationFrame"
      by blast
    from draws_only [OF ds(2)] have "filter is_draw ds = ds" by simp
    with ds(1) ds(3) show ?thesis by (simp add: startup_calls)
  qed
  have rep: "count_list (replicate n AnimationFrame) AnimationFrame = n"
    by (induction n) simp_all
  show ?thesis
    using count [of evs] count [of "replicate n AnimationFrame"] rep
    by (simp add: drawOneFrame_pending run_pending [OF p])
qed

subsection \<open>Start-up and lifetime\<close>

text \<open>
  C7. At program start, before any key event is handled, all four InputState fields
  are false; they are still false after any number of frames with no key event.
\<close>

theorem flags_start_false:
  "curInput (startup make_game w0) = \<lparr>up = False, down = False, left = False, right = False\<rparr>
   \<and> \<not> up (curInput (startup make_game w0)) \<and> \<not> down (curInput (startup make_game w0))
   \<and> \<not> left (curInput (startup make_game w0)) \<and> \<not> right (curInput (startup make_game w0))
   \<and> curInput (run draw (replicate n AnimationFrame) (startup make_game w0))
       = \<lparr>up = False, down = False, left = False, right = False\<rparr>"
proof -
  have "curInput (run draw (replicate n AnimationFrame) (startup make_game w0))
          = fold key_effect (replicate n AnimationFrame) (curInput (startup make_game w0))"
    by (rule run_curInput [OF startup_pending])
  also have "\<dots> = curInput (startup make_game w0)"
    by (rule frames_keep_flags)
  finally show ?thesis
    by (simp add: startup_curInput)
qed

text \<open>
  C8. One InputState and one GameHandle exist for the lifetime of the page. The
  game-construction operation is called exactly once, at start-up, before anything
  else; after any history of events the \<open>game\<close> binding still holds the handle that
  call returned, the log holds no second construction, and every draw call in it was
  made on that handle. The flags read by the frames are those of the one InputState
  created at start-up, as changed by the key events so far.
\<close>

theorem one_game_for_lifetime:
  "calls (startup make_game w0) = [MakeGame]
   \<and> game (startup make_game w0) = fst (make_game w0)
   \<and> world (startup make_game w0) = snd (make_game w0)
   \<and> game (run draw evs (startup make_game w0)) = fst (make_game w0)
   \<and> hd (calls (run draw evs (startup make_game w0))) = MakeGame
   \<and> count_list (calls (run draw evs (startup make_game w0))) MakeGame = 1
   \<and> list_all (draw_on (fst (make_game w0))) (tl (calls (run draw evs (startup make_game w0))))
   \<and> curInput (run draw evs (startup make_game w0))
       = fold key_effect evs \<lparr>up = False, down = False, left = False, right = False\<rparr>"
proof -
  let ?s0 = "startup make_game w0"
  have p: "pending ?s0 = [DrawOneFrame]" by (rule startup_pending)
  from run_calls [OF p, of draw evs] obtain ds where
    ds: "calls (run draw evs ?s0) = MakeGame # ds" "list_all (draw_on (fst (make_game w0))) ds"
    by (auto simp: startup_calls startup_game)
  from draws_only [OF ds(2)] have "count_list ds MakeGame = 0" by simp
  with ds show ?thesis
    by (simp add: startup_calls startup_game startup_world startup_curInput
        run_game [OF p] run_curInput [OF p])
qed

end
